theory Spec2Isabelle
  imports Main
begin

section \<open>JavaScript values\<close>

text \<open>
  The endpoints pass JavaScript objects around: descriptors, request bodies, parsed
  responses. A value is a tree; an object is its list of own properties in insertion
  order, each key occurring once. Numbers are never computed with by the endpoints, so
  they are carried as integers.
\<close>

datatype json =
    JUndefined
  | JNull
  | JBool bool
  | JNum int
  | JStr string
  | JArr "json list"
  | JObj "(string \<times> json) list"

type_synonym obj = "(string \<times> json) list"

text \<open>\<open>o.k\<close> on an object: the value of the property, \<open>undefined\<close> when it is absent.\<close>

fun lookup :: "obj \<Rightarrow> string \<Rightarrow> json" where
  "lookup [] k = JUndefined"
| "lookup ((k', v) # ps) k = (if k' = k then v else lookup ps k)"

text \<open>\<open>o.k = v\<close>: overwrites the property in place, or appends it.\<close>

fun assign :: "obj \<Rightarrow> string \<Rightarrow> json \<Rightarrow> obj" where
  "assign [] k v = [(k, v)]"
| "assign ((k', v') # ps) k v =
     (if k' = k then (k', v) # ps else (k', v') # assign ps k v)"

text \<open>
  \<open>{...target, ...source}\<close>: the properties of \<open>source\<close> win. The list keeps the
  order in which the properties were first written; the order in which JavaScript
  enumerates them (integer-like keys first) is read by no statement below.
\<close>

definition spread :: "obj \<Rightarrow> obj \<Rightarrow> obj" where
  "spread target source = fold (\<lambda>(k, v) acc. assign acc k v) source target"

section \<open>Errors and results\<close>

text \<open>
  A promise either resolves to a value or rejects with an error: \<open>error + 'a\<close>, \<open>Inl\<close>
  the rejection. The first eight errors are the spec's typed errors; \<open>JsTypeError\<close> and
  \<open>JsError\<close> are the run-time errors of JavaScript itself (a property read on
  \<open>undefined\<close> or \<open>null\<close>; an \<open>Error\<close> thrown by a library).
\<close>

datatype error =
    NetworkError
  | HTTPStatusError nat string
  | RateLimited "nat option"
  | ProcessSpawnError
  | ProcessExitError nat string
  | MalformedResponse
  | SignatureMismatch
  | ConfigurationError
  | JsTypeError
  | JsError

text \<open>\<open>x.k\<close> on any value: a TypeError on \<open>undefined\<close> and \<open>null\<close>.\<close>

fun get :: "json \<Rightarrow> string \<Rightarrow> error + json" where
  "get JUndefined k = Inl JsTypeError"
| "get JNull k = Inl JsTypeError"
| "get (JObj ps) k = Inr (lookup ps k)"
| "get v k = Inr JUndefined"

section \<open>Transport configuration and the dispatcher\<close>

datatype transport_mode = API | CLI

text \<open>
  The Flow types of \<open>../types\<close> (RequestOptions, the descriptors) are not among the
  sources: each is a record of the fields that the endpoints and the dispatcher read.
\<close>

record request_options =
  transportMode :: "transport_mode option"

text \<open>
  Modelled from the spec: the Client's TransportConfig (the Client class is not among the
  sources). Spec, data model: \<open>{mode, apiBaseUrl?, cliExecutablePath?, authToken?,
  defaultHeaders}\<close>.
\<close>

record transport_config =
  mode :: transport_mode
  apiBaseUrl :: "string option"
  cliExecutablePath :: "string option"
  authToken :: "string option"
  defaultHeaders :: "(string \<times> string) list"

text \<open>The two clients of the test helpers: \<open>API_CLIENT\<close> and \<open>CLI_CLIENT\<close>.\<close>

definition API_CLIENT :: transport_config where
  "API_CLIENT = \<lparr>mode = API, apiBaseUrl = Some ''http://api'', cliExecutablePath = None,
     authToken = None, defaultHeaders = []\<rparr>"


text \<open>
  An action is one of the closures an endpoint hands to the dispatcher. Running it may
  change the world outside the client (the network, the file system): it takes the
  world and returns its outcome and the new world.
\<close>

type_synonym ('w, 'a) action = "'w \<Rightarrow> (error + 'a) \<times> 'w"

record ('w, 'a) endpoint_request =
  api :: "('w, 'a) action"
  cli :: "('w, 'a) action option"
  requestOptions :: request_options

text \<open>
  Modelled from the spec: the effective mode of a call (Endpoint.configureRequest is not
  among the sources). Spec, Dispatcher: "Effective mode = options.transportMode if
  present, else the Client's configured mode."
\<close>

definition effective_mode :: "transport_config \<Rightarrow> request_options \<Rightarrow> transport_mode" where
  "effective_mode c ro = (case transportMode ro of Some m \<Rightarrow> m | None \<Rightarrow> mode c)"

text \<open>
  Modelled from the spec: the two kinds of operation that the Dispatcher tells apart
  (Endpoint.configureRequest is not among the sources). Spec, Dispatcher: "some
  operations (e.g., signature verification) are transport-agnostic and bypass this
  entirely by always resolving locally regardless of mode"; every other operation is
  bound to a transport.
\<close>

datatype operation_kind = TransportBound | TransportAgnostic

text \<open>
  Modelled from the spec: the Dispatcher. Spec, Dispatcher: the HTTP action is
  required and the CLI action optional; "If effective mode is CLI but no cliAction is
  supplied, fails with ConfigurationError (some operations (e.g., signature
  verification) are transport-agnostic and bypass this entirely by always resolving
  locally regardless of mode)"; "Exactly one of httpAction/cliAction is invoked per
  call; the other is never started (... no fallback ...)"; "Side effect: none beyond
  invoking the chosen action; the Dispatcher itself holds no state." Spec,
  SignatureVerifier: "always resolves locally (transport-independent) even when routed
  through the Dispatcher".
  The state is the client's configuration and the world; the configuration is returned
  so that a change to it would show.
\<close>

definition dispatch ::
  "operation_kind \<Rightarrow> ('w, 'a) endpoint_request \<Rightarrow> transport_config \<times> 'w \<Rightarrow>
   (error + 'a) \<times> transport_config \<times> 'w" where
  "dispatch kind req st =
     (case st of (c, w) \<Rightarrow>
       (case kind of
          TransportAgnostic \<Rightarrow> (case api req w of (r, w') \<Rightarrow> (r, c, w'))
        | TransportBound \<Rightarrow>
            (case effective_mode c (requestOptions req) of
               API \<Rightarrow> (case api req w of (r, w') \<Rightarrow> (r, c, w'))
             | CLI \<Rightarrow>
                 (case cli req of
                    None \<Rightarrow> (Inl ConfigurationError, c, w)
                  | Some act \<Rightarrow> (case act w of (r, w') \<Rightarrow> (r, c, w'))))))"

text \<open>
  Modelled from the spec: Endpoint.configureRequest as the methods of an operation
  bound to a transport call it: the Dispatcher on a transport-bound operation.
\<close>

definition configureRequest ::
  "('w, 'a) endpoint_request \<Rightarrow> transport_config \<times> 'w \<Rightarrow> (error + 'a) \<times> transport_config \<times> 'w" where
  "configureRequest req st = dispatch TransportBound req st"

section \<open>API calls\<close>

datatype http_method = GET | POST | PUT | DELETE

text \<open>
  What an endpoint passes to \<open>this.apiRequest(path, {method, body, headers})\<close>; an
  option that the endpoint leaves out is \<open>None\<close> (\<open>httpMethod\<close> is the option \<open>method\<close>).
\<close>

record api_call =
  path :: string
  httpMethod :: "http_method option"
  body :: "json option"
  headers :: "(string \<times> string) list option"

text \<open>
  \<open>apiRequest\<close> itself belongs to the Endpoint base class, which is not among the
  sources: the endpoints take it as a parameter.
\<close>

type_synonym 'w api_transport = "api_call \<Rightarrow> ('w, json) action"

text \<open>
  A transport that records every call it is given and answers from a fixed server
  function: the world is the list of calls issued so far.
\<close>

definition recording :: "(api_call \<Rightarrow> error + json) \<Rightarrow> api_call list api_transport" where
  "recording server call log = (server call, log @ [call])"

definition issued :: "'r \<times> transport_config \<times> api_call list \<Rightarrow> api_call list" where
  "issued out = snd (snd out)"

section \<open>Webhooks\<close>

text \<open>
  The endpoint class of Webhooks.js (declared there under the name \<open>Users\<close>). Each
  method hands the dispatcher an api closure and the request options, and no cli
  closure.
\<close>

record organization_descriptor =
  organizationId :: string

definition Webhooks_create ::
  "'w api_transport \<Rightarrow> organization_descriptor \<Rightarrow> json \<Rightarrow> request_options \<Rightarrow>
   transport_config \<times> 'w \<Rightarrow> (error + json) \<times> transport_config \<times> 'w" where
  "Webhooks_create apiRequest descriptor webhook ro =
     configureRequest \<lparr>
       api = apiRequest \<lparr>
         path = ''organizations/'' @ organizationId descriptor @ ''/webhooks/subscribe'',
         httpMethod = Some POST,
         body = Some (JObj [(''subscription'', webhook)]),
         headers = None\<rparr>,
       cli = None,
       requestOptions = ro\<rparr>"

definition Webhooks_update ::
  "'w api_transport \<Rightarrow> organization_descriptor \<Rightarrow> json \<Rightarrow> request_options \<Rightarrow>
   transport_config \<times> 'w \<Rightarrow> (error + json) \<times> transport_config \<times> 'w" where
  "Webhooks_update apiRequest descriptor webhook ro =
     configureRequest \<lparr>
       api = apiRequest \<lparr>
         path = ''organizations/'' @ organizationId descriptor @ ''/webhooks/subscribe'',
         httpMethod = Some POST,
         body = Some (JObj [(''subscription'', webhook)]),
         headers = None\<rparr>,
       cli = None,
       requestOptions = ro\<rparr>"


section \<open>Projects\<close>

definition Projects_headers :: "(string \<times> string) list" where
  "Projects_headers = [(''Abstract-Api-Version'', ''22'')]"

record project_descriptor =
  projectId :: string

text \<open>
  Modelled from the spec: the result of \<open>wrap\<close> of util/helpers (not among the
  sources). Spec: the caller sees the data, and the response it came from stays
  attached to it as diagnostic information. A value that was never wrapped has no
  response attached.
\<close>

record wrapped =
  unwrapped :: json
  attached :: "json option"

text \<open>
  Modelled from the spec: \<open>wrap(value, response)\<close> of util/helpers: the value, with the
  response attached; \<open>wrap(value)\<close> names no response.
\<close>

definition wrap :: "json \<Rightarrow> json option \<Rightarrow> wrapped" where
  "wrap v response = \<lparr>unwrapped = v, attached = response\<rparr>"

text \<open>A value that \<open>wrap\<close> was never applied to.\<close>

definition plain :: "json \<Rightarrow> wrapped" where
  "plain v = \<lparr>unwrapped = v, attached = None\<rparr>"

text \<open>\<open>const x = await p; return f(x)\<close>: a rejection of \<open>p\<close> is the outcome.\<close>

definition await :: "(error + 'a) \<times> 'w \<Rightarrow> ('a \<Rightarrow> error + 'b) \<Rightarrow> (error + 'b) \<times> 'w" where
  "await out f = (case out of (Inl e, w) \<Rightarrow> (Inl e, w) | (Inr v, w) \<Rightarrow> (f v, w))"

definition Projects_info ::
  "'w api_transport \<Rightarrow> project_descriptor \<Rightarrow> request_options \<Rightarrow>
   transport_config \<times> 'w \<Rightarrow> (error + wrapped) \<times> transport_config \<times> 'w" where
  "Projects_info apiRequest descriptor ro =
     configureRequest \<lparr>
       api = (\<lambda>w.
         await (apiRequest \<lparr>path = ''projects/'' @ projectId descriptor, httpMethod = None,
                  body = None, headers = Some Projects_headers\<rparr> w)
           (\<lambda>response.
              (case get response ''data'' of
                 Inl e \<Rightarrow> Inl e
               | Inr d \<Rightarrow> Inr (wrap d (Some response))))),
       cli = None,
       requestOptions = ro\<rparr>"

datatype project_filter = Active | Archived

fun filter_name :: "project_filter \<Rightarrow> string" where
  "filter_name Active = ''active''"
| "filter_name Archived = ''archived''"

text \<open>
  The options of \<open>list\<close>: the request options and \<open>filter\<close>, \<open>sectionId\<close>
  (\<open>filter_opt\<close> here, since \<open>filter\<close> is the list function).
\<close>

record list_options = request_options +
  filter_opt :: "project_filter option"
  sectionId :: "string option"

definition descriptor_obj :: "organization_descriptor \<Rightarrow> obj" where
  "descriptor_obj descriptor = [(''organizationId'', JStr (organizationId descriptor))]"

text \<open>The object given to \<open>querystring.stringify\<close>: \<open>{...descriptor, filter, sectionId}\<close>.\<close>

definition list_query :: "organization_descriptor \<Rightarrow> list_options \<Rightarrow> obj" where
  "list_query descriptor options =
     assign
       (assign (spread [] (descriptor_obj descriptor)) ''filter''
          (case filter_opt options of None \<Rightarrow> JUndefined | Some f \<Rightarrow> JStr (filter_name f)))
       ''sectionId''
       (case sectionId options of None \<Rightarrow> JUndefined | Some s \<Rightarrow> JStr s)"

text \<open>\<open>if (sectionId)\<close>: \<open>undefined\<close> and the empty string are falsy.\<close>

definition truthy :: "string option \<Rightarrow> bool" where
  "truthy s = (case s of None \<Rightarrow> False | Some v \<Rightarrow> v \<noteq> [])"

text \<open>
  \<open>projects.filter(project => project.sectionId === sectionId)\<close>: the elements are
  visited in order, and reading \<open>sectionId\<close> of an element that is \<open>undefined\<close> or
  \<open>null\<close> throws.
\<close>

fun filter_projects :: "string \<Rightarrow> json list \<Rightarrow> error + json list" where
  "filter_projects sid [] = Inr []"
| "filter_projects sid (project # ps) =
     (case get project ''sectionId'' of
        Inl e \<Rightarrow> Inl e
      | Inr v \<Rightarrow>
          (case filter_projects sid ps of
             Inl e \<Rightarrow> Inl e
           | Inr kept \<Rightarrow> Inr (if v = JStr sid then project # kept else kept)))"

definition list_result :: "string option \<Rightarrow> json \<Rightarrow> error + wrapped" where
  "list_result sid response =
     (case get response ''data'' of
        Inl e \<Rightarrow> Inl e
      | Inr d \<Rightarrow>
          (case get d ''projects'' of
             Inl e \<Rightarrow> Inl e
           | Inr projects \<Rightarrow>
               (if truthy sid then
                  (case projects of
                     JArr ps \<Rightarrow>
                       (case filter_projects (the sid) ps of
                          Inl e \<Rightarrow> Inl e
                        | Inr kept \<Rightarrow> Inr (plain (JArr kept)))
                   | _ \<Rightarrow> Inl JsTypeError)
                else Inr (wrap projects (Some response)))))"

definition Projects_list ::
  "(obj \<Rightarrow> string) \<Rightarrow> 'w api_transport \<Rightarrow> organization_descriptor \<Rightarrow> list_options \<Rightarrow>
   transport_config \<times> 'w \<Rightarrow> (error + wrapped) \<times> transport_config \<times> 'w" where
  "Projects_list querystring_stringify apiRequest descriptor options =
     configureRequest \<lparr>
       api = (\<lambda>w.
         (let query = querystring_stringify (list_query descriptor options)
          in await (apiRequest \<lparr>path = ''projects?'' @ query, httpMethod = None, body = None,
                      headers = Some Projects_headers\<rparr> w)
               (list_result (sectionId options)))),
       cli = None,
       requestOptions = \<lparr>transportMode = transportMode options\<rparr>\<rparr>"

text \<open>
  \<open>create\<close> and \<open>update\<close> write to the object their caller passes. The caller and the
  method hold the same object, so objects live in a store, and the argument is the
  object's address. The body of the request is the object as it is when the request
  is made, after the write.
\<close>

type_synonym store = "nat \<Rightarrow> obj"

definition Projects_create ::
  "'w api_transport \<Rightarrow> organization_descriptor \<Rightarrow> nat \<Rightarrow> request_options \<Rightarrow> store \<Rightarrow>
   transport_config \<times> 'w \<Rightarrow> store \<times> (error + wrapped) \<times> transport_config \<times> 'w" where
  "Projects_create apiRequest descriptor project ro h st =
     (let h' = h(project := assign (h project) ''about'' (lookup (h project) ''description''))
      in (h',
          configureRequest \<lparr>
            api = (\<lambda>w.
              await (apiRequest \<lparr>path = ''projects'', httpMethod = Some POST,
                       body = Some (JObj (h' project)), headers = None\<rparr> w)
                (\<lambda>response. Inr (wrap response None))),
            cli = None,
            requestOptions = ro\<rparr> st))"

definition Projects_update ::
  "'w api_transport \<Rightarrow> project_descriptor \<Rightarrow> nat \<Rightarrow> request_options \<Rightarrow> store \<Rightarrow>
   transport_config \<times> 'w \<Rightarrow> store \<times> (error + wrapped) \<times> transport_config \<times> 'w" where
  "Projects_update apiRequest descriptor project ro h st =
     (let h' = h(project := assign (h project) ''about'' (lookup (h project) ''description''))
      in (h',
          configureRequest \<lparr>
            api = (\<lambda>w.
              await (apiRequest \<lparr>path = ''projects/'' @ projectId descriptor,
                       httpMethod = Some PUT, body = Some (JObj (h' project)),
                       headers = None\<rparr> w)
                (\<lambda>response. Inr (wrap response None))),
            cli = None,
            requestOptions = ro\<rparr> st))"

definition Projects_delete ::
  "'w api_transport \<Rightarrow> project_descriptor \<Rightarrow> request_options \<Rightarrow>
   transport_config \<times> 'w \<Rightarrow> (error + json) \<times> transport_config \<times> 'w" where
  "Projects_delete apiRequest descriptor ro =
     configureRequest \<lparr>
       api = apiRequest \<lparr>path = ''projects/'' @ projectId descriptor, httpMethod = Some DELETE,
               body = None, headers = None\<rparr>,
       cli = None,
       requestOptions = ro\<rparr>"

definition Projects_archive ::
  "'w api_transport \<Rightarrow> project_descriptor \<Rightarrow> request_options \<Rightarrow>
   transport_config \<times> 'w \<Rightarrow> (error + json) \<times> transport_config \<times> 'w" where
  "Projects_archive apiRequest descriptor ro =
     configureRequest \<lparr>
       api = apiRequest \<lparr>path = ''projects/'' @ projectId descriptor @ ''/archive'',
               httpMethod = Some PUT, body = None, headers = None\<rparr>,
       cli = None,
       requestOptions = ro\<rparr>"

definition Projects_unarchive ::
  "'w api_transport \<Rightarrow> project_descriptor \<Rightarrow> request_options \<Rightarrow>
   transport_config \<times> 'w \<Rightarrow> (error + json) \<times> transport_config \<times> 'w" where
  "Projects_unarchive apiRequest descriptor ro =
     configureRequest \<lparr>
       api = apiRequest \<lparr>path = ''projects/'' @ projectId descriptor @ ''/unarchive'',
               httpMethod = Some PUT, body = None, headers = None\<rparr>,
       cli = None,
       requestOptions = ro\<rparr>"

section \<open>Shares\<close>

definition Shares_headers :: "(string \<times> string) list" where
  "Shares_headers = [(''Abstract-Api-Version'', ''13'')]"

text \<open>
  The body of \<open>create\<close> is \<open>{...descriptor, ...shareInput, commitSha: shareInput.sha}\<close>.
\<close>

definition Shares_create ::
  "'w api_transport \<Rightarrow> organization_descriptor \<Rightarrow> obj \<Rightarrow> request_options \<Rightarrow>
   transport_config \<times> 'w \<Rightarrow> (error + json) \<times> transport_config \<times> 'w" where
  "Shares_create apiRequest descriptor shareInput ro =
     configureRequest \<lparr>
       api = apiRequest \<lparr>
         path = ''share_links'',
         httpMethod = Some POST,
         body = Some (JObj (assign (spread (spread [] (descriptor_obj descriptor)) shareInput)
                              ''commitSha'' (lookup shareInput ''sha''))),
         headers = Some Shares_headers\<rparr>,
       cli = None,
       requestOptions = ro\<rparr>"

text \<open>
  \<open>inferShareId\<close> of util/helpers is not among the sources: it is a parameter, and may
  throw, in which case no request is made.
\<close>

definition Shares_info ::
  "('d \<Rightarrow> error + string) \<Rightarrow> 'w api_transport \<Rightarrow> 'd \<Rightarrow> request_options \<Rightarrow>
   transport_config \<times> 'w \<Rightarrow> (error + json) \<times> transport_config \<times> 'w" where
  "Shares_info inferShareId apiRequest descriptor ro =
     configureRequest \<lparr>
       api = (\<lambda>w.
         (case inferShareId descriptor of
            Inl e \<Rightarrow> (Inl e, w)
          | Inr shareId \<Rightarrow>
              apiRequest \<lparr>path = ''share_links/'' @ shareId, httpMethod = None, body = None,
                headers = Some Shares_headers\<rparr> w)),
       cli = None,
       requestOptions = ro\<rparr>"

text \<open>The value of the \<open>Abstract-Api-Version\<close> header that an endpoint gives a call.\<close>

definition api_version :: "api_call \<Rightarrow> string option" where
  "api_version call =
     (case headers call of None \<Rightarrow> None | Some hs \<Rightarrow> map_of hs ''Abstract-Api-Version'')"

section \<open>Observing the dispatcher\<close>

text \<open>
  A spy around an action: it runs the action and appends its tag to a log of the
  actions that were invoked, as a mock in a test would.
\<close>

definition spy :: "transport_mode \<Rightarrow> ('w, 'a) action \<Rightarrow> (transport_mode list \<times> 'w, 'a) action" where
  "spy tag act = (\<lambda>(log, w). case act w of (r, w') \<Rightarrow> (r, log @ [tag], w'))"

definition invoked :: "'r \<times> transport_config \<times> transport_mode list \<times> 'w \<Rightarrow> transport_mode list" where
  "invoked out = fst (snd (snd out))"

text \<open>A value whose properties cannot be read.\<close>

definition nullish :: "json \<Rightarrow> bool" where
  "nullish v = (v = JUndefined \<or> v = JNull)"

section \<open>The HTTP transport\<close>














section \<open>Properties of objects\<close>

lemma lookup_assign: "lookup (assign ps k v) k' = (if k' = k then v else lookup ps k')"
  by (induction ps) auto

lemma get_Inl: "(get v k = Inl e) = (nullish v \<and> e = JsTypeError)"
  by (cases v) (auto simp: nullish_def)

section \<open>Properties of the dispatcher\<close>

lemma configureRequest_API:
  "effective_mode c (requestOptions req) = API \<Longrightarrow>
   configureRequest req (c, w) = (fst (api req w), c, snd (api req w))"
  by (simp add: configureRequest_def dispatch_def split: prod.split)

lemma configureRequest_CLI_None:
  "effective_mode c (requestOptions req) = CLI \<Longrightarrow> cli req = None \<Longrightarrow>
   configureRequest req (c, w) = (Inl ConfigurationError, c, w)"
  by (simp add: configureRequest_def dispatch_def)

lemma configureRequest_CLI_Some:
  "effective_mode c (requestOptions req) = CLI \<Longrightarrow> cli req = Some act \<Longrightarrow>
   configureRequest req (c, w) = (fst (act w), c, snd (act w))"
  by (simp add: configureRequest_def dispatch_def split: prod.split)

lemma effective_mode_override [simp]:
  "effective_mode c (ro\<lparr>transportMode := Some m\<rparr>) = m"
  by (simp add: effective_mode_def)

lemma effective_mode_default [simp]:
  "effective_mode c (ro\<lparr>transportMode := None\<rparr>) = mode c"
  by (simp add: effective_mode_def)

lemma fst_API:
  "effective_mode c (requestOptions req) = API \<Longrightarrow>
   fst (configureRequest req (c, w)) = fst (api req w)"
  by (simp add: configureRequest_API)

lemma issued_API:
  "effective_mode c (requestOptions req) = API \<Longrightarrow>
   issued (configureRequest req (c, log)) = snd (api req log)"
  by (simp add: configureRequest_API issued_def)

lemma issued_CLI_None:
  "effective_mode c (requestOptions req) = CLI \<Longrightarrow> cli req = None \<Longrightarrow>
   issued (configureRequest req (c, log)) = log"
  by (simp add: configureRequest_CLI_None issued_def)

lemma client_after_dispatch: "fst (snd (configureRequest req (c, w))) = c"
  by (simp add: configureRequest_def dispatch_def split: transport_mode.split option.split prod.split)

lemma snd_recording: "snd (recording server call log) = log @ [call]"
  by (simp add: recording_def)

lemma await_recording: "snd (await (recording server call log) f) = log @ [call]"
  by (simp add: await_def recording_def split: sum.split)

lemma fst_await_recording:
  "fst (await (recording (\<lambda>_. Inr response) call log) f) = f response"
  by (simp add: await_def recording_def)



section \<open>Per-call override of the transport mode\<close>

lemma two_dispatches:
  "invoked (configureRequest
        \<lparr>api = spy API h2, cli = Some (spy CLI g2), requestOptions = ro2\<lparr>transportMode := None\<rparr>\<rparr>
        (snd (configureRequest
           \<lparr>api = spy API h1, cli = Some (spy CLI g1),
            requestOptions = ro1\<lparr>transportMode := Some m\<rparr>\<rparr> (c, [], w)))) = [m, mode c]"
proof (cases m)
  case API
  show ?thesis
    by (cases "mode c")
      (simp_all add: API configureRequest_API configureRequest_CLI_Some invoked_def spy_def
        split: prod.split)
next
  case CLI
  show ?thesis
    by (cases "mode c")
      (simp_all add: CLI configureRequest_API configureRequest_CLI_Some invoked_def spy_def
        split: prod.split)
qed

text \<open>
  C7. A per-call transportMode overrides the client's configured mode for that call
  only. The effective mode of a call with an override is the override, and without one
  the client's mode; after any dispatched call, and after Projects.list with an
  override in particular, the client's configuration (mode, base URL, CLI path, token,
  default headers) is what it was; Projects.list hands the override on to the
  dispatcher (overridden to CLI it issues no request, overridden to API it issues
  one); and of two calls in a row, the first with an override and the second without,
  the first runs on the overriding transport and the second on the client's.
\<close>

theorem override_leaves_client_unchanged:
  "effective_mode c (ro\<lparr>transportMode := Some m\<rparr>) = m
   \<and> effective_mode c (ro\<lparr>transportMode := None\<rparr>) = mode c
   \<and> fst (snd (configureRequest req (c, w))) = c
   \<and> fst (snd (Projects_list qs apiRequest od (options\<lparr>transportMode := Some m\<rparr>) (c, w))) = c
   \<and> issued (Projects_list qs (recording server) od (options\<lparr>transportMode := Some CLI\<rparr>) (c, []))
       = []
   \<and> length (issued (Projects_list qs (recording server) od
        (options\<lparr>transportMode := Some API\<rparr>) (c, []))) = 1
   \<and> invoked (configureRequest
        \<lparr>api = spy API h2, cli = Some (spy CLI g2), requestOptions = ro2\<lparr>transportMode := None\<rparr>\<rparr>
        (snd (configureRequest
           \<lparr>api = spy API h1, cli = Some (spy CLI g1),
            requestOptions = ro1\<lparr>transportMode := Some m\<rparr>\<rparr> (c, [], w)))) = [m, mode c]"
proof -
  have a: "fst (snd (Projects_list qs apiRequest od (options\<lparr>transportMode := Some m\<rparr>) (c, w))) = c"
    by (simp add: Projects_list_def client_after_dispatch)
  have b: "issued (Projects_list qs (recording server) od
             (options\<lparr>transportMode := Some CLI\<rparr>) (c, [])) = []"
    by (simp add: Projects_list_def issued_CLI_None effective_mode_def)
  have d: "length (issued (Projects_list qs (recording server) od
             (options\<lparr>transportMode := Some API\<rparr>) (c, []))) = 1"
    by (simp add: Projects_list_def issued_API effective_mode_def Let_def await_recording)
  show ?thesis
    using a b d by (simp add: client_after_dispatch two_dispatches)
qed

section \<open>Webhooks: create and update\<close>

text \<open>
  C9. Webhooks.update issues the identical request as Webhooks.create: on every
  transport, descriptor, webhook, options and state the two calls have the same outcome
  and leave the same state; and in API mode each issues exactly one request, a POST to
  organizations/{organizationId}/webhooks/subscribe with body {subscription: webhook}
  and no extra headers.
\<close>

theorem Webhooks_update_same_as_create:
  "Webhooks_update apiRequest descriptor webhook ro st =
     Webhooks_create apiRequest descriptor webhook ro st
   \<and> issued (Webhooks_update (recording server) descriptor webhook
        (ro\<lparr>transportMode := Some API\<rparr>) (c, [])) =
       [\<lparr>path = ''organizations/'' @ organizationId descriptor @ ''/webhooks/subscribe'',
         httpMethod = Some POST, body = Some (JObj [(''subscription'', webhook)]),
         headers = None\<rparr>]
   \<and> issued (Webhooks_create (recording server) descriptor webhook
        (ro\<lparr>transportMode := Some API\<rparr>) (c, [])) =
       [\<lparr>path = ''organizations/'' @ organizationId descriptor @ ''/webhooks/subscribe'',
         httpMethod = Some POST, body = Some (JObj [(''subscription'', webhook)]),
         headers = None\<rparr>]"
  by (simp add: Webhooks_update_def Webhooks_create_def configureRequest_API
      issued_def recording_def)

section \<open>Webhooks: verify\<close>





section \<open>Projects: create and update\<close>

text \<open>
  C8. Projects.create and Projects.update overwrite the \<open>about\<close> property of the
  project object their caller passes with the value of its \<open>description\<close> property,
  before dispatch and in every call (whatever the transport, the mode and the
  outcome): after the call the store holds the written object at the caller's address
  and is otherwise as before, reading \<open>about\<close> there gives what \<open>description\<close> gave
  before the call, and in API mode the body of the one request issued is the written
  object.
\<close>

theorem Projects_create_update_overwrite_about:
  "fst (Projects_create apiRequest d project ro h st) =
     h(project := assign (h project) ''about'' (lookup (h project) ''description''))
   \<and> lookup (fst (Projects_create apiRequest d project ro h st) project) ''about'' =
       lookup (h project) ''description''
   \<and> fst (Projects_update apiRequest d' project ro h st) =
       h(project := assign (h project) ''about'' (lookup (h project) ''description''))
   \<and> lookup (fst (Projects_update apiRequest d' project ro h st) project) ''about'' =
       lookup (h project) ''description''
   \<and> map body (issued (snd (Projects_create (recording server) d project
        (ro\<lparr>transportMode := Some API\<rparr>) h (c, []))))
       = [Some (JObj (assign (h project) ''about'' (lookup (h project) ''description'')))]
   \<and> map body (issued (snd (Projects_update (recording server) d' project
        (ro\<lparr>transportMode := Some API\<rparr>) h (c, []))))
       = [Some (JObj (assign (h project) ''about'' (lookup (h project) ''description'')))]"
  by (simp add: Projects_create_def Projects_update_def Let_def lookup_assign issued_API
      await_recording)

section \<open>Projects: list\<close>

lemma filter_projects_eq:
  "filter_projects sid ps =
     (if list_ex nullish ps then Inl JsTypeError
      else Inr (filter (\<lambda>p. get p ''sectionId'' = Inr (JStr sid)) ps))"
proof (induction ps)
  case Nil
  show ?case by simp
next
  case (Cons p ps)
  show ?case
  proof (cases "get p ''sectionId''")
    case (Inl e)
    then have "nullish p" and "e = JsTypeError" by (simp_all add: get_Inl)
    with Inl show ?thesis by simp
  next
    case (Inr v)
    then have "\<not> nullish p" by (cases p) (auto simp: nullish_def)
    with Inr Cons show ?thesis by auto
  qed
qed

text \<open>
  C10. The result of Projects.list in API mode, on a response whose \<open>data.projects\<close> is
  an array. As amended: called with a non-empty sectionId, list resolves to exactly
  those projects of the array whose \<open>sectionId\<close> property equals the given one, in
  their order (and rejects with a TypeError if an element of the array is \<open>undefined\<close>
  or \<open>null\<close>); called without sectionId, or with the empty string as sectionId, it
  resolves to the full array.
\<close>

theorem Projects_list_sectionId:
  assumes "effective_mode c \<lparr>transportMode = transportMode options\<rparr> = API"
    and "get response ''data'' = Inr d"
    and "get d ''projects'' = Inr (JArr ps)"
    and "sid \<noteq> []"
  shows "fst (Projects_list qs (recording (\<lambda>_. Inr response)) descriptor
            (options\<lparr>sectionId := Some sid\<rparr>) (c, log)) =
           (if list_ex nullish ps then Inl JsTypeError
            else Inr (plain (JArr (filter (\<lambda>project. get project ''sectionId'' = Inr (JStr sid)) ps))))
         \<and> fst (Projects_list qs (recording (\<lambda>_. Inr response)) descriptor
            (options\<lparr>sectionId := None\<rparr>) (c, log)) = Inr (wrap (JArr ps) (Some response))
         \<and> fst (Projects_list qs (recording (\<lambda>_. Inr response)) descriptor
            (options\<lparr>sectionId := Some []\<rparr>) (c, log)) = Inr (wrap (JArr ps) (Some response))"
  using assms
  by (simp add: Projects_list_def fst_API Let_def fst_await_recording list_result_def
      truthy_def filter_projects_eq)

text \<open>
  The amended C10 on the API client: of three projects, one in section s1, one in
  section s2 and one in no section, list with sectionId s1 resolves to the first.
\<close>

theorem Projects_list_sectionId_witness:
  "fst (Projects_list (\<lambda>_. []) (recording (\<lambda>_. Inr (JObj [(''data'', JObj [(''projects'',
       JArr [JObj [(''id'', JStr ''p1''), (''sectionId'', JStr ''s1'')],
             JObj [(''id'', JStr ''p2''), (''sectionId'', JStr ''s2'')],
             JObj [(''id'', JStr ''p3'')]])])])))
     \<lparr>organizationId = ''org''\<rparr>
     \<lparr>transportMode = None, filter_opt = None, sectionId = Some ''s1''\<rparr> (API_CLIENT, [])) =
   Inr (plain (JArr [JObj [(''id'', JStr ''p1''), (''sectionId'', JStr ''s1'')]]))"
  using Projects_list_sectionId [of API_CLIENT
      "\<lparr>transportMode = None, filter_opt = None, sectionId = None\<rparr>"
      "JObj [(''data'', JObj [(''projects'',
       JArr [JObj [(''id'', JStr ''p1''), (''sectionId'', JStr ''s1'')],
             JObj [(''id'', JStr ''p2''), (''sectionId'', JStr ''s2'')],
             JObj [(''id'', JStr ''p3'')]])])]"
      "JObj [(''projects'',
       JArr [JObj [(''id'', JStr ''p1''), (''sectionId'', JStr ''s1'')],
             JObj [(''id'', JStr ''p2''), (''sectionId'', JStr ''s2'')],
             JObj [(''id'', JStr ''p3'')]])]"
      "[JObj [(''id'', JStr ''p1''), (''sectionId'', JStr ''s1'')],
             JObj [(''id'', JStr ''p2''), (''sectionId'', JStr ''s2'')],
             JObj [(''id'', JStr ''p3'')]]"
      "''s1''" "\<lambda>_. []" "\<lparr>organizationId = ''org''\<rparr>" "[]"]
  by (simp add: API_CLIENT_def effective_mode_def nullish_def)

text \<open>
  C10 as stated fails: called with the empty string as sectionId, on a response whose
  only project is in section s1, list resolves to the full array, that project
  included, although no project of the array has the empty string as its sectionId.
\<close>

theorem Projects_list_empty_sectionId_counterexample:
  "map_sum id unwrapped
     (fst (Projects_list (\<lambda>_. []) (recording (\<lambda>_. Inr (JObj [(''data'', JObj [(''projects'',
         JArr [JObj [(''id'', JStr ''p1''), (''sectionId'', JStr ''s1'')]])])])))
       \<lparr>organizationId = ''org''\<rparr>
       \<lparr>transportMode = None, filter_opt = None, sectionId = Some []\<rparr> (API_CLIENT, [])))
     = Inr (JArr [JObj [(''id'', JStr ''p1''), (''sectionId'', JStr ''s1'')]])
   \<and> filter (\<lambda>project. get project ''sectionId'' = Inr (JStr []))
        [JObj [(''id'', JStr ''p1''), (''sectionId'', JStr ''s1'')]] = []"
  by (simp add: Projects_list_def configureRequest_def dispatch_def effective_mode_def API_CLIENT_def
      await_def recording_def list_result_def truthy_def wrap_def)

section \<open>The version header\<close>

text \<open>
  C5. The Abstract-Api-Version header. As amended: in API mode, Projects.info and
  Projects.list each issue one request, which carries the header with the value "22",
  and Shares.create and Shares.info each issue one request (Shares.info none when
  the share id cannot be inferred), which carries the header with the value "13".
\<close>

theorem version_header_pinned:
  assumes "effective_mode c ro = API"
    and "effective_mode c \<lparr>transportMode = transportMode options\<rparr> = API"
  shows "map api_version (issued (Projects_info (recording server) pd ro (c, []))) = [Some ''22'']
       \<and> map api_version (issued (Projects_list qs (recording server) od options (c, []))) =
           [Some ''22'']
       \<and> map api_version (issued (Shares_create (recording server) od shareInput ro (c, []))) =
           [Some ''13'']
       \<and> map api_version (issued (Shares_info inferShareId (recording server) sd ro (c, []))) =
           (case inferShareId sd of Inl e \<Rightarrow> [] | Inr shareId \<Rightarrow> [Some ''13''])"
  using assms
  by (simp add: Projects_info_def Projects_list_def Shares_create_def Shares_info_def
      issued_API await_recording snd_recording Let_def api_version_def Projects_headers_def
      Shares_headers_def split: sum.split)

text \<open>
  The amended C5 on the API client: Projects.info carries "22" and Shares.create
  carries "13".
\<close>

theorem version_header_pinned_witness:
  "map api_version (issued (Projects_info (recording (\<lambda>_. Inr JNull))
       \<lparr>projectId = ''p1''\<rparr> \<lparr>transportMode = None\<rparr> (API_CLIENT, []))) = [Some ''22'']
   \<and> map api_version (issued (Shares_create (recording (\<lambda>_. Inr JNull))
       \<lparr>organizationId = ''org''\<rparr> [(''sha'', JStr ''c4e5578c'')] \<lparr>transportMode = None\<rparr>
       (API_CLIENT, []))) = [Some ''13'']"
  using version_header_pinned [of API_CLIENT "\<lparr>transportMode = None\<rparr>"
      "\<lparr>transportMode = None, filter_opt = None, sectionId = None\<rparr>"
      "\<lambda>_. Inr JNull" "\<lparr>projectId = ''p1''\<rparr>" "\<lambda>_. []" "\<lparr>organizationId = ''org''\<rparr>"
      "[(''sha'', JStr ''c4e5578c'')]" "\<lambda>_. Inr ''s''" "()"]
  by (simp add: API_CLIENT_def effective_mode_def)

text \<open>
  The other operations of Projects give their calls no headers at all.
\<close>

lemma Projects_calls_without_headers:
  assumes "effective_mode c ro = API"
  shows "map headers (issued (snd (Projects_update (recording server) pd project ro h (c, [])))) = [None]
       \<and> map headers (issued (Projects_delete (recording server) pd ro (c, []))) = [None]
       \<and> map headers (issued (Projects_archive (recording server) pd ro (c, []))) = [None]
       \<and> map headers (issued (Projects_unarchive (recording server) pd ro (c, []))) = [None]"
  using assms
  by (simp add: Projects_update_def Projects_delete_def Projects_archive_def
      Projects_unarchive_def issued_API await_recording snd_recording Let_def)

text \<open>
  C5 as stated fails: the one request that Projects.create issues on the API client
  carries no Abstract-Api-Version header from the endpoint.
\<close>

theorem Projects_create_version_counterexample:
  "map api_version (issued (snd (Projects_create (recording (\<lambda>_. Inr JNull))
       \<lparr>organizationId = ''org''\<rparr> 0 \<lparr>transportMode = None\<rparr>
       (\<lambda>_. [(''name'', JStr ''New Project'')]) (API_CLIENT, [])))) = [None]"
  by (simp add: Projects_create_def Let_def configureRequest_def dispatch_def effective_mode_def
      API_CLIENT_def issued_def await_def recording_def api_version_def)

section \<open>Rate limiting\<close>



end
